theory Spec2Isabelle
  imports Complex_Main "HOL-Library.Sublist" "HOL-Library.Multiset"
begin

section \<open>Python values\<close>

text \<open>
  The service is one Python module, \<^verbatim>\<open>app.py\<close>. Its functions work on Python strings,
  on floats and on the values that \<^verbatim>\<open>response.json()\<close> decodes. Strings are modelled as
  \<^typ>\<open>string\<close> with one \<^typ>\<open>char\<close> per character, which is exact for ASCII text
  (all keywords of the program are ASCII). Floats are modelled as exact reals: IEEE rounding
  is not part of the model. Every exception that Python can raise in the modelled code is a
  value of \<open>py_error\<close>, and a computation that may raise returns \<open>py_error + 'a\<close>.
\<close>

datatype py_error =
    AttributeError
  | TypeError
  | ValueError
  | JSONDecodeError
  | RequestException

datatype json =
    JNull
  | JBool bool
  | JNum real
  | JStr string
  | JArr "json list"
  | JObj "(string \<times> json) list"

text \<open>Sequencing of computations that may raise: the first exception ends the block.\<close>

definition py_bind :: "py_error + 'a \<Rightarrow> ('a \<Rightarrow> py_error + 'b) \<Rightarrow> py_error + 'b" where
  "py_bind m f = (case m of Inl e \<Rightarrow> Inl e | Inr x \<Rightarrow> f x)"

text \<open>Truth value of an object, as \<^verbatim>\<open>not x\<close>, \<^verbatim>\<open>x or y\<close> and \<^verbatim>\<open>if x\<close> test it.\<close>

fun truthy :: "json \<Rightarrow> bool" where
  "truthy JNull = False"
| "truthy (JBool b) = b"
| "truthy (JNum x) = (x \<noteq> 0)"
| "truthy (JStr s) = (s \<noteq> [])"
| "truthy (JArr xs) = (xs \<noteq> [])"
| "truthy (JObj kvs) = (kvs \<noteq> [])"

subsection \<open>String methods\<close>

definition lower_char :: "char \<Rightarrow> char" where
  "lower_char c =
     (let n = (of_char c :: nat) in if 65 \<le> n \<and> n \<le> 90 then char_of (n + 32) else c)"

definition upper_char :: "char \<Rightarrow> char" where
  "upper_char c =
     (let n = (of_char c :: nat) in if 97 \<le> n \<and> n \<le> 122 then char_of (n - 32) else c)"

text \<open>\<^verbatim>\<open>s.lower()\<close>, \<^verbatim>\<open>s.upper()\<close> and \<^verbatim>\<open>s.capitalize()\<close>.\<close>

definition lower :: "string \<Rightarrow> string" where
  "lower s = map lower_char s"

definition upper :: "string \<Rightarrow> string" where
  "upper s = map upper_char s"

definition capitalize :: "string \<Rightarrow> string" where
  "capitalize s = (case s of [] \<Rightarrow> [] | c # cs \<Rightarrow> upper_char c # lower cs)"

text \<open>
  The characters at which \<^verbatim>\<open>str.split()\<close> (no argument) cuts: tab, line feed, vertical
  tab, form feed, carriage return, the four separators 28 to 31, and the space.
\<close>

definition is_space :: "char \<Rightarrow> bool" where
  "is_space c = (let n = (of_char c :: nat) in (9 \<le> n \<and> n \<le> 13) \<or> (28 \<le> n \<and> n \<le> 32))"

text \<open>
  \<^verbatim>\<open>s.split()\<close>: the maximal runs of non-space characters, in order; no empty word is
  produced. The first argument is the word read so far.
\<close>

fun split_from :: "string \<Rightarrow> string \<Rightarrow> string list" where
  "split_from cur [] = (if cur = [] then [] else [cur])"
| "split_from cur (c # cs) =
     (if is_space c then (if cur = [] then split_from [] cs else cur # split_from [] cs)
      else split_from (cur @ [c]) cs)"

definition split :: "string \<Rightarrow> string list" where
  "split s = split_from [] s"

text \<open>
  \<^verbatim>\<open>a in b\<close> on two strings: \<open>a\<close> occurs in \<open>b\<close> as a contiguous block. The search
  tries every start position from the left.
\<close>

fun py_in :: "string \<Rightarrow> string \<Rightarrow> bool" where
  "py_in a [] = (a = [])"
| "py_in a (c # cs) = (prefix a (c # cs) \<or> py_in a cs)"

section \<open>The relevance scorer\<close>

text \<open>
  \<^verbatim>\<open>calculate_relevance_score(query, text)\<close>, lines 294 to 316. The query is a string.
  The text comes out of a decoded provider response, so it may be any JSON value: a falsy
  one (\<^verbatim>\<open>None\<close>, \<^verbatim>\<open>0\<close>, the empty string, ...) takes the first return, a non-empty string
  is scored, and any other value makes \<^verbatim>\<open>text.lower()\<close> raise \<^verbatim>\<open>AttributeError\<close>.
\<close>

definition calculate_relevance_score :: "string \<Rightarrow> json \<Rightarrow> py_error + real" where
  "calculate_relevance_score query text =
     (if query = [] \<or> \<not> truthy text then Inr 0.5
      else
        let query_lower = lower query in
        py_bind (case text of JStr s \<Rightarrow> Inr (lower s) | _ \<Rightarrow> Inl AttributeError)
          (\<lambda>text_lower.
             if py_in query_lower text_lower then Inr 0.95
             else
               let query_words = filter (\<lambda>w. length w > 3) (split query_lower) in
               if query_words = [] then Inr 0.5
               else
                 let matches = sum_list (map (\<lambda>word. (1::nat))
                                   (filter (\<lambda>word. py_in word text_lower) query_words)) in
                 Inr (0.5 + (real matches / real (length query_words)) * 0.4)))"

text \<open>
  The scorer as the specification words it, on two strings: the three cases in order,
  with \<open>W\<close> the words of the lowercased query longer than three characters (a sequence:
  a word written twice counts twice) and "occurs in" read as \<^const>\<open>sublist\<close>.
\<close>

definition relevance_spec :: "string \<Rightarrow> string \<Rightarrow> real" where
  "relevance_spec q t =
     (if q = [] \<or> t = [] then 0.5
      else if sublist (lower q) (lower t) then 0.95
      else
        let W = filter (\<lambda>w. 3 < length w) (split (lower q)) in
        if W = [] then 0.5
        else 0.5 + 0.4 * (real (length (filter (\<lambda>w. sublist w (lower t)) W)) / real (length W)))"

section \<open>Decoded provider responses\<close>

text \<open>
  \<^verbatim>\<open>d.get(key, default)\<close>: only a dict has the method. A JSON object is the list of its
  entries in document order, which is the order in which Python iterates the dict.
\<close>

definition py_get :: "json \<Rightarrow> string \<Rightarrow> json \<Rightarrow> py_error + json" where
  "py_get d key dflt =
     (case d of
        JObj kvs \<Rightarrow> Inr (case map_of kvs key of None \<Rightarrow> dflt | Some v \<Rightarrow> v)
      | _ \<Rightarrow> Inl AttributeError)"

text \<open>
  \<^verbatim>\<open>v[:n]\<close>: lists and strings can be sliced, nothing else can (for a dict the exception
  is \<^verbatim>\<open>TypeError\<close> up to Python 3.11 and \<^verbatim>\<open>KeyError\<close> from 3.12 on; the model says
  \<open>TypeError\<close>).
\<close>

definition py_slice :: "json \<Rightarrow> nat \<Rightarrow> py_error + json" where
  "py_slice v n =
     (case v of
        JArr xs \<Rightarrow> Inr (JArr (take n xs))
      | JStr s \<Rightarrow> Inr (JStr (take n s))
      | _ \<Rightarrow> Inl TypeError)"

text \<open>The items a \<^verbatim>\<open>for\<close> loop visits: a string yields its characters, a dict its keys.\<close>

definition py_iter :: "json \<Rightarrow> py_error + json list" where
  "py_iter v =
     (case v of
        JArr xs \<Rightarrow> Inr xs
      | JStr s \<Rightarrow> Inr (map (\<lambda>c. JStr [c]) s)
      | JObj kvs \<Rightarrow> Inr (map (\<lambda>kv. JStr (fst kv)) kvs)
      | _ \<Rightarrow> Inl TypeError)"

text \<open>\<^verbatim>\<open>d.items()\<close>.\<close>

definition py_items :: "json \<Rightarrow> py_error + (string \<times> json) list" where
  "py_items d = (case d of JObj kvs \<Rightarrow> Inr kvs | _ \<Rightarrow> Inl AttributeError)"

text \<open>\<^verbatim>\<open>v.upper()\<close>.\<close>

definition py_upper :: "json \<Rightarrow> py_error + string" where
  "py_upper v = (case v of JStr s \<Rightarrow> Inr (upper s) | _ \<Rightarrow> Inl AttributeError)"

text \<open>\<^verbatim>\<open>v > 0\<close>: defined on numbers and on booleans (\<^verbatim>\<open>True\<close> is 1).\<close>

definition py_gt_zero :: "json \<Rightarrow> py_error + bool" where
  "py_gt_zero v =
     (case v of JNum x \<Rightarrow> Inr (0 < x) | JBool b \<Rightarrow> Inr b | _ \<Rightarrow> Inl TypeError)"

text \<open>
  Text built by an f-string is kept as the list of its parts: rendering a value
  (\<^verbatim>\<open>str\<close>, the float formats) is not modelled. \<open>Sym\<close> names a character outside ASCII.
  A part with a float format, \<^verbatim>\<open>{v:,.2f}\<close>, can be built from a number or a boolean only.
\<close>

datatype piece = Lit string | Sym string | Val json | Fmt json string

datatype py_value = Raw json | FStr "piece list"

definition py_format :: "json \<Rightarrow> string \<Rightarrow> py_error + piece" where
  "py_format v spec =
     (case v of
        JNum x \<Rightarrow> Inr (Fmt v spec)
      | JBool b \<Rightarrow> Inr (Fmt v spec)
      | JStr s \<Rightarrow> Inl ValueError
      | _ \<Rightarrow> Inl TypeError)"

section \<open>Search results and the outside world\<close>

text \<open>
  A search result is the dict the fetchers build: \<^verbatim>\<open>result_metadata.score\<close>, \<^verbatim>\<open>title\<close>,
  \<^verbatim>\<open>body\<close>, \<^verbatim>\<open>url\<close> and \<^verbatim>\<open>highlight.body\<close>.
\<close>

record search_result =
  score :: real
  title :: py_value
  body :: py_value
  url :: py_value
  highlight :: "py_value list"

text \<open>
  What \<^verbatim>\<open>requests.get(url, timeout=10)\<close> followed by \<^verbatim>\<open>response.json()\<close> can give: the
  call raises, or there is a response with a status code and a body that decodes to a JSON
  value or does not (\<open>None\<close>: \<^verbatim>\<open>response.json()\<close> raises). The world is a function from
  the URL requested to the outcome.
\<close>

datatype http_outcome = Raises | Response nat "json option"

type_synonym http = "string \<Rightarrow> http_outcome"

text \<open>The two module-level keys read from the environment at start-up.\<close>

record config =
  CRYPTOPANIC_API_KEY :: string
  NEWSAPI_KEY :: string

text \<open>
  The body of each fetcher's \<^verbatim>\<open>for\<close> loop appends one result per item to \<open>results\<close>.
  An exception leaves the loop with the list as it is at that moment.
\<close>

fun append_each ::
  "('a \<Rightarrow> py_error + search_result) \<Rightarrow> 'a list \<Rightarrow> search_result list
    \<Rightarrow> search_result list \<times> py_error option" where
  "append_each f [] results = (results, None)"
| "append_each f (x # xs) results =
     (case f x of
        Inl e \<Rightarrow> (results, Some e)
      | Inr r \<Rightarrow> append_each f xs (results @ [r]))"

text \<open>
  One request and the decoding of its answer, shared by the four \<^verbatim>\<open>try\<close> blocks:
  \<open>on_data\<close> is the code run on the decoded body of a 200 response. Any other status
  runs no further code (CryptoPanic prints the status, the others have no \<^verbatim>\<open>else\<close>).
\<close>

definition request ::
  "http \<Rightarrow> string \<Rightarrow> (json \<Rightarrow> search_result list \<times> py_error option)
    \<Rightarrow> search_result list \<times> py_error option" where
  "request world u on_data =
     (case world u of
        Raises \<Rightarrow> ([], Some RequestException)
      | Response status_code payload \<Rightarrow>
          if status_code = 200 then
            (case payload of
               None \<Rightarrow> ([], Some JSONDecodeError)
             | Some data \<Rightarrow> on_data data)
          else ([], None))"

section \<open>Trending coins\<close>

definition trending_url :: string where
  "trending_url = ''https://api.coingecko.com/api/v3/search/trending''"

text \<open>The dict appended for one entry of \<^verbatim>\<open>coins\<close>, lines 154 to 173.\<close>

definition coingecko_result :: "string \<Rightarrow> json \<Rightarrow> py_error + search_result" where
  "coingecko_result query coin =
     py_bind (py_get coin ''item'' (JObj [])) (\<lambda>coin_data.
     py_bind (py_get coin_data ''name'' (JStr [])) (\<lambda>name.
     py_bind (calculate_relevance_score query name) (\<lambda>sc.
     py_bind (py_get coin_data ''symbol'' (JStr [])) (\<lambda>symbol.
     py_bind (py_upper symbol) (\<lambda>symbol_upper.
     py_bind (py_get coin_data ''market_cap_rank'' (JStr ''N/A'')) (\<lambda>rank.
     py_bind (py_get coin_data ''data'' (JObj [])) (\<lambda>coin_stats.
     py_bind (py_get coin_stats ''price'' (JStr ''N/A'')) (\<lambda>price.
     py_bind (py_get coin_data ''id'' (JStr [])) (\<lambda>coin_id.
     py_bind (py_get coin_stats ''total_volume'' (JStr ''N/A'')) (\<lambda>volume.
     Inr \<lparr> score = sc,
           title = FStr [Sym ''FIRE'', Lit '' '', Val name, Lit '' ('', Lit symbol_upper,
                         Lit '') - Trending''],
           body = FStr [Val name, Lit '' is currently trending on CoinGecko. '',
                        Lit ''Market Cap Rank: #'', Val rank, Lit ''. '',
                        Lit ''Price: $'', Val price],
           url = FStr [Lit ''https://www.coingecko.com/en/coins/'', Val coin_id],
           highlight = [FStr [Sym ''FIRE'', Lit '' Trending: '', Val name],
                        FStr [Lit ''Rank: #'', Val rank],
                        FStr [Lit ''24h Volume: $'', Val volume]] \<rparr>))))))))))"

text \<open>The items the loop of line 153 visits: \<^verbatim>\<open>data.get('coins', [])[:3]\<close>.\<close>

definition trending_coins :: "json \<Rightarrow> py_error + json list" where
  "trending_coins data =
     py_bind (py_get data ''coins'' (JArr [])) (\<lambda>v. py_bind (py_slice v 3) py_iter)"

text \<open>The \<^verbatim>\<open>try\<close> block of \<^verbatim>\<open>fetch_from_coingecko\<close>: the results and the exception, if any.\<close>

definition coingecko_try :: "string \<Rightarrow> http \<Rightarrow> search_result list \<times> py_error option" where
  "coingecko_try query world =
     request world trending_url (\<lambda>data.
       case trending_coins data of
         Inl e \<Rightarrow> ([], Some e)
       | Inr coins \<Rightarrow> append_each (coingecko_result query) coins [])"

text \<open>\<^verbatim>\<open>except Exception\<close> prints the exception; the function returns \<open>results\<close>.\<close>

definition fetch_from_coingecko :: "string \<Rightarrow> http \<Rightarrow> py_error + search_result list" where
  "fetch_from_coingecko query world = Inr (fst (coingecko_try query world))"

section \<open>CryptoPanic\<close>

definition coin_filters :: "(string \<times> string) list" where
  "coin_filters =
     [(''bitcoin'', ''BTC''), (''btc'', ''BTC''), (''ethereum'', ''ETH''),
      (''eth'', ''ETH''), (''solana'', ''SOL''), (''sol'', ''SOL'')]"

text \<open>Lines 88 to 104: the first keyword found in the query adds its currency, then \<^verbatim>\<open>break\<close>.\<close>

definition cryptopanic_url :: "config \<Rightarrow> string \<Rightarrow> string" where
  "cryptopanic_url cfg query =
     (let u = ''https://cryptopanic.com/api/v1/posts/?auth_token='' @ CRYPTOPANIC_API_KEY cfg
                @ ''&public=true'';
          query_lower = lower query
      in case find (\<lambda>kc. py_in (fst kc) query_lower) coin_filters of
           None \<Rightarrow> u
         | Some kc \<Rightarrow> u @ ''&currencies='' @ snd kc)"

definition cryptopanic_result :: "string \<Rightarrow> json \<Rightarrow> py_error + search_result" where
  "cryptopanic_result query post =
     py_bind (py_get post ''title'' (JStr [])) (\<lambda>post_title.
     py_bind (calculate_relevance_score query post_title) (\<lambda>sc.
     py_bind (py_get post ''source'' (JObj [])) (\<lambda>source.
     py_bind (py_get source ''title'' (JStr [])) (\<lambda>source_title.
     py_bind (py_get post ''published_at'' (JStr [])) (\<lambda>published_at.
     py_bind (py_get post ''url'' (JStr [])) (\<lambda>post_url.
     py_bind (py_get source ''title'' (JStr ''Unknown'')) (\<lambda>source_shown.
     py_bind (py_get post ''votes'' (JObj [])) (\<lambda>votes.
     py_bind (py_get votes ''positive'' (JNum 0)) (\<lambda>positive.
     Inr \<lparr> score = sc,
           title = Raw post_title,
           body = FStr [Val post_title, Lit ''. '', Val source_title, Lit '' - '',
                        Lit ''Published: '', Val published_at],
           url = Raw post_url,
           highlight = [Raw post_title,
                        FStr [Lit ''Source: '', Val source_shown],
                        FStr [Lit ''Votes: '', Val positive]] \<rparr>)))))))))"

text \<open>The items the loop of line 112 visits: \<^verbatim>\<open>data.get('results', [])[:5]\<close>.\<close>

definition cryptopanic_posts :: "json \<Rightarrow> py_error + json list" where
  "cryptopanic_posts data =
     py_bind (py_get data ''results'' (JArr [])) (\<lambda>v. py_bind (py_slice v 5) py_iter)"

definition cryptopanic_try ::
  "config \<Rightarrow> string \<Rightarrow> http \<Rightarrow> search_result list \<times> py_error option" where
  "cryptopanic_try cfg query world =
     request world (cryptopanic_url cfg query) (\<lambda>data.
       case cryptopanic_posts data of
         Inl e \<Rightarrow> ([], Some e)
       | Inr posts \<Rightarrow> append_each (cryptopanic_result query) posts [])"

definition fetch_from_cryptopanic ::
  "config \<Rightarrow> string \<Rightarrow> http \<Rightarrow> py_error + search_result list" where
  "fetch_from_cryptopanic cfg query world = Inr (fst (cryptopanic_try cfg query world))"

section \<open>Prices\<close>

definition coin_map :: "(string \<times> string) list" where
  "coin_map =
     [(''bitcoin'', ''bitcoin''), (''btc'', ''bitcoin''), (''ethereum'', ''ethereum''),
      (''eth'', ''ethereum''), (''solana'', ''solana''), (''sol'', ''solana''),
      (''cardano'', ''cardano''), (''ada'', ''cardano''), (''xrp'', ''ripple''),
      (''ripple'', ''ripple'')]"

text \<open>The loop of lines 204 to 206 over the entries of the table: \<open>ids\<close> is \<^verbatim>\<open>coin_ids\<close>.\<close>

fun mentioned_coins :: "string \<Rightarrow> (string \<times> string) list \<Rightarrow> string list \<Rightarrow> string list" where
  "mentioned_coins query_lower [] ids = ids"
| "mentioned_coins query_lower ((keyword, coin_id) # entries) ids =
     mentioned_coins query_lower entries
       (if py_in keyword query_lower then ids @ [coin_id] else ids)"

text \<open>Lines 200 to 210 of \<^verbatim>\<open>fetch_crypto_prices\<close>: the coin ids that are requested.\<close>

definition coin_ids :: "string \<Rightarrow> string list" where
  "coin_ids query =
     (let query_lower = lower query;
          ids = mentioned_coins query_lower coin_map []
      in if ids = [] then [''bitcoin'', ''ethereum'', ''solana''] else ids)"

text \<open>\<^verbatim>\<open>sep.join(xs)\<close>.\<close>

fun join :: "string \<Rightarrow> string list \<Rightarrow> string" where
  "join sep [] = []"
| "join sep [x] = x"
| "join sep (x # y # ys) = x @ sep @ join sep (y # ys)"

definition prices_url :: "string \<Rightarrow> string" where
  "prices_url query =
     ''https://api.coingecko.com/api/v3/simple/price''
       @ ''?ids='' @ join '','' (coin_ids query) @ ''&vs_currencies=usd''
       @ ''&include_24hr_change=true&include_market_cap=true''"

text \<open>The dict appended for one entry \<open>(coin_id, price_data)\<close> of the response, lines 225 to 246.\<close>

definition price_result :: "string \<times> json \<Rightarrow> py_error + search_result" where
  "price_result entry =
     (let coin_id = fst entry; price_data = snd entry in
      py_bind (py_get price_data ''usd_24h_change'' (JNum 0)) (\<lambda>change_24h.
      py_bind (py_gt_zero change_24h) (\<lambda>rising.
      let emoji = (if rising then Sym ''CHART WITH UPWARDS TREND''
                   else Sym ''CHART WITH DOWNWARDS TREND'') in
      py_bind (py_get price_data ''usd'' (JNum 0)) (\<lambda>usd.
      py_bind (py_format usd '',.2f'') (\<lambda>usd_text.
      py_bind (py_format change_24h ''.2f'') (\<lambda>change_text.
      py_bind (py_get price_data ''usd_market_cap'' (JNum 0)) (\<lambda>market_cap.
      py_bind (py_format market_cap '',.0f'') (\<lambda>market_cap_text.
      Inr \<lparr> score = 0.9,
            title = FStr [emoji, Lit '' '', Lit (capitalize coin_id), Lit '' Price Update''],
            body = FStr [Lit (capitalize coin_id), Lit '' is trading at $'', usd_text, Lit '' '',
                         Lit ''with a 24h change of '', change_text, Lit ''%. '',
                         Lit ''Market Cap: $'', market_cap_text],
            url = FStr [Lit ''https://www.coingecko.com/en/coins/'', Lit coin_id],
            highlight = [FStr [Lit ''Price: $'', usd_text],
                         FStr [Lit ''24h Change: '', change_text, Lit ''%''],
                         FStr [Lit ''Market Cap: $'', market_cap_text]] \<rparr>))))))))"

definition prices_try :: "string \<Rightarrow> http \<Rightarrow> search_result list \<times> py_error option" where
  "prices_try query world =
     request world (prices_url query) (\<lambda>data.
       case py_items data of
         Inl e \<Rightarrow> ([], Some e)
       | Inr entries \<Rightarrow> append_each price_result entries [])"

definition fetch_crypto_prices :: "string \<Rightarrow> http \<Rightarrow> py_error + search_result list" where
  "fetch_crypto_prices query world = Inr (fst (prices_try query world))"

section \<open>NewsAPI\<close>

definition newsapi_url :: "config \<Rightarrow> string" where
  "newsapi_url cfg =
     ''https://newsapi.org/v2/everything?q=cryptocurrency OR bitcoin OR ethereum''
       @ ''&apiKey='' @ NEWSAPI_KEY cfg @ ''&sortBy=publishedAt&pageSize=5''"

definition newsapi_result :: "string \<Rightarrow> json \<Rightarrow> py_error + search_result" where
  "newsapi_result query article =
     py_bind (py_get article ''title'' (JStr [])) (\<lambda>article_title.
     py_bind (calculate_relevance_score query article_title) (\<lambda>sc.
     py_bind (py_get article ''description'' (JStr [])) (\<lambda>description.
     py_bind (if truthy description then Inr description
              else py_bind (py_get article ''content'' (JStr [])) (\<lambda>content.
                     py_slice content 200)) (\<lambda>article_body.
     py_bind (py_get article ''url'' (JStr [])) (\<lambda>article_url.
     py_bind (py_get article ''source'' (JObj [])) (\<lambda>source.
     py_bind (py_get source ''name'' (JStr ''Unknown'')) (\<lambda>source_name.
     py_bind (py_get article ''publishedAt'' (JStr [])) (\<lambda>published_at.
     Inr \<lparr> score = sc,
           title = Raw article_title,
           body = Raw article_body,
           url = Raw article_url,
           highlight = [Raw article_title,
                        FStr [Lit ''Source: '', Val source_name],
                        FStr [Lit ''Published: '', Val published_at]] \<rparr>))))))))"

text \<open>The items the loop of line 272 visits: \<^verbatim>\<open>data.get('articles', [])[:3]\<close>.\<close>

definition newsapi_articles :: "json \<Rightarrow> py_error + json list" where
  "newsapi_articles data =
     py_bind (py_get data ''articles'' (JArr [])) (\<lambda>v. py_bind (py_slice v 3) py_iter)"

definition newsapi_try ::
  "config \<Rightarrow> string \<Rightarrow> http \<Rightarrow> search_result list \<times> py_error option" where
  "newsapi_try cfg query world =
     request world (newsapi_url cfg) (\<lambda>data.
       case newsapi_articles data of
         Inl e \<Rightarrow> ([], Some e)
       | Inr articles \<Rightarrow> append_each (newsapi_result query) articles [])"

definition fetch_from_newsapi ::
  "config \<Rightarrow> string \<Rightarrow> http \<Rightarrow> py_error + search_result list" where
  "fetch_from_newsapi cfg query world = Inr (fst (newsapi_try cfg query world))"

section \<open>The aggregator\<close>

text \<open>
  \<^verbatim>\<open>xs.sort(key=f, reverse=True)\<close>: the list is reversed, sorted by a stable ascending
  sort, and reversed again.
\<close>

definition py_sort_reverse :: "('a \<Rightarrow> real) \<Rightarrow> 'a list \<Rightarrow> 'a list" where
  "py_sort_reverse f xs = rev (sort_key f (rev xs))"

text \<open>
  Lines 57 to 75 of \<^verbatim>\<open>fetch_crypto_news\<close>: the list \<open>results\<close> before it is sorted. The
  two sources with a key are called only when the key is not empty. An exception raised
  by a fetcher would leave the function at once.
\<close>

definition gathered_results :: "config \<Rightarrow> string \<Rightarrow> http \<Rightarrow> py_error + search_result list" where
  "gathered_results cfg query world =
     py_bind (fetch_from_coingecko query world) (\<lambda>coingecko_results.
     py_bind (if CRYPTOPANIC_API_KEY cfg \<noteq> [] then fetch_from_cryptopanic cfg query world
              else Inr []) (\<lambda>cryptopanic_results.
     py_bind (fetch_crypto_prices query world) (\<lambda>market_results.
     py_bind (if NEWSAPI_KEY cfg \<noteq> [] then fetch_from_newsapi cfg query world
              else Inr []) (\<lambda>news_results.
     Inr (coingecko_results @ cryptopanic_results @ market_results @ news_results)))))"

text \<open>Lines 78 and 79: sort by score, highest first, and keep the first ten.\<close>

definition top_ten :: "search_result list \<Rightarrow> search_result list" where
  "top_ten results = take 10 (py_sort_reverse score results)"

definition fetch_crypto_news ::
  "config \<Rightarrow> string \<Rightarrow> string \<Rightarrow> http \<Rightarrow> py_error + search_result list" where
  "fetch_crypto_news cfg query filter_param world =
     py_bind (gathered_results cfg query world) (\<lambda>results. Inr (top_ten results))"

section \<open>Notions used to state the properties\<close>

text \<open>
  An outbound call that gives the fetcher no decoded body: the call raised, the status is
  not 200, or the body of a 200 response does not decode.
\<close>

fun failed :: "http_outcome \<Rightarrow> bool" where
  "failed Raises = True"
| "failed (Response status_code payload) = (status_code \<noteq> 200 \<or> payload = None)"

text \<open>The records of the items that precede the first item whose mapping raises.\<close>

definition records_until_error :: "('a \<Rightarrow> py_error + search_result) \<Rightarrow> 'a list \<Rightarrow> search_result list" where
  "records_until_error f xs = map projr (takeWhile (\<lambda>r. \<not> isl r) (map f xs))"

text \<open>
  The text a trending coin is scored against, line 157:
  \<^verbatim>\<open>coin.get('item', {}).get('name', '')\<close>.
\<close>

definition coin_name :: "json \<Rightarrow> py_error + json" where
  "coin_name coin =
     py_bind (py_get coin ''item'' (JObj [])) (\<lambda>coin_data. py_get coin_data ''name'' (JStr []))"

subsection \<open>Sample provider responses\<close>

definition trending_item :: "string \<Rightarrow> json \<Rightarrow> json" where
  "trending_item name symbol =
     JObj [(''item'', JObj [(''id'', JStr (lower name)), (''name'', JStr name),
                            (''symbol'', symbol), (''market_cap_rank'', JNum 1),
                            (''data'', JObj [(''price'', JNum 100)])])]"

definition trending_payload :: json where
  "trending_payload =
     JObj [(''coins'', JArr [trending_item ''Bitcoin'' (JStr ''btc''),
                            trending_item ''Pepe'' (JStr ''pepe''),
                            trending_item ''Wrapped Bitcoin'' (JStr ''wbtc''),
                            trending_item ''Solana'' (JStr ''sol'')])]"

text \<open>A trending response whose second coin has \<^verbatim>\<open>"symbol": null\<close>.\<close>

definition trending_payload_null_symbol :: json where
  "trending_payload_null_symbol =
     JObj [(''coins'', JArr [trending_item ''Bitcoin'' (JStr ''btc''),
                            trending_item ''Pepe'' JNull,
                            trending_item ''Solana'' (JStr ''sol'')])]"

definition post :: "string \<Rightarrow> json" where
  "post t = JObj [(''title'', JStr t), (''url'', JStr ''https://cryptopanic.com/news/1''),
                  (''source'', JObj [(''title'', JStr ''CoinDesk'')]),
                  (''votes'', JObj [(''positive'', JNum 3)])]"

definition posts_payload :: json where
  "posts_payload =
     JObj [(''results'', JArr [post ''Bitcoin hits a new high'', post ''Miners sell'',
                              post ''ETF inflows grow'', post ''Why bitcoin matters'',
                              post ''Market wrap'', post ''Bitcoin at the close''])]"

definition price_entry :: "string \<Rightarrow> string \<times> json" where
  "price_entry coin =
     (coin, JObj [(''usd'', JNum 67000), (''usd_market_cap'', JNum 1300000000000),
                  (''usd_24h_change'', JNum 1.5)])"

definition article :: "string \<Rightarrow> json" where
  "article t = JObj [(''title'', JStr t), (''description'', JStr ''An article''),
                     (''url'', JStr ''https://example.org/a''),
                     (''source'', JObj [(''name'', JStr ''Example News'')])]"

definition articles_payload :: json where
  "articles_payload =
     JObj [(''articles'', JArr [article ''Ethereum upgrade ships'', article ''Bitcoin and gold'',
                               article ''Regulators meet'', article ''Bitcoin again''])]"

definition sample_config :: config where
  "sample_config = \<lparr> CRYPTOPANIC_API_KEY = ''k1'', NEWSAPI_KEY = ''k2'' \<rparr>"

text \<open>A world in which the four requests made for the query "bitcoin" succeed.\<close>

definition sample_world :: http where
  "sample_world u =
     (if u = ''https://api.coingecko.com/api/v3/search/trending''
        then Response 200 (Some trending_payload)
      else if u = ''https://cryptopanic.com/api/v1/posts/?auth_token=k1&public=true&currencies=BTC''
        then Response 200 (Some posts_payload)
      else if u = ''https://api.coingecko.com/api/v3/simple/price?ids=bitcoin&vs_currencies=usd&include_24hr_change=true&include_market_cap=true''
        then Response 200 (Some (JObj [price_entry ''bitcoin'']))
      else if u = ''https://newsapi.org/v2/everything?q=cryptocurrency OR bitcoin OR ethereum&apiKey=k2&sortBy=publishedAt&pageSize=5''
        then Response 200 (Some articles_payload)
      else Raises)"

text \<open>The same world with the trending endpoint answering 503.\<close>

definition trending_down_world :: http where
  "trending_down_world u =
     (if u = ''https://api.coingecko.com/api/v3/search/trending'' then Response 503 None
      else sample_world u)"

text \<open>The same world with the null symbol in the trending response.\<close>

definition null_symbol_world :: http where
  "null_symbol_world u =
     (if u = ''https://api.coingecko.com/api/v3/search/trending''
        then Response 200 (Some trending_payload_null_symbol)
      else sample_world u)"

text \<open>A world whose price endpoint answers the default request with six coins.\<close>

definition six_prices_world :: http where
  "six_prices_world u =
     (if u = ''https://api.coingecko.com/api/v3/simple/price?ids=bitcoin,ethereum,solana&vs_currencies=usd&include_24hr_change=true&include_market_cap=true''
        then Response 200 (Some (JObj [price_entry ''bitcoin'', price_entry ''ethereum'',
               price_entry ''solana'', price_entry ''cardano'', price_entry ''ripple'',
               price_entry ''dogecoin'']))
      else Raises)"

text \<open>
  A world whose price endpoint answers the request for "bitcoin ethereum" with a null
  24 hour change for the second coin.
\<close>

definition null_change_world :: http where
  "null_change_world u =
     (if u = ''https://api.coingecko.com/api/v3/simple/price?ids=bitcoin,ethereum,ethereum&vs_currencies=usd&include_24hr_change=true&include_market_cap=true''
        then Response 200 (Some (JObj [price_entry ''bitcoin'',
               (''ethereum'', JObj [(''usd'', JNum 3000), (''usd_market_cap'', JNum 400000000000),
                                    (''usd_24h_change'', JNull)])]))
      else Raises)"

text \<open>A world in which every outbound call raises.\<close>

definition dead_world :: http where
  "dead_world u = Raises"

text \<open>A result with a given score and title, for examples of the ranking step.\<close>

definition scored :: "real \<Rightarrow> string \<Rightarrow> search_result" where
  "scored s name =
     \<lparr> score = s, title = Raw (JStr name), body = Raw JNull, url = Raw JNull, highlight = [] \<rparr>"

section \<open>Properties of the scorer\<close>

lemma py_in_iff_sublist: "py_in a b = sublist a b"
  by (induction b) (auto simp: sublist_Cons_right)

lemma lower_Nil_iff: "lower s = [] \<longleftrightarrow> s = []"
  by (simp add: lower_def)

lemma matches_count: "sum_list (map (\<lambda>w. Suc 0) ws) = length ws"
  by (induction ws) auto

text \<open>The scorer on a text that is a string: it returns, and the value is read off the code.\<close>

lemma score_on_strings:
  "calculate_relevance_score q (JStr t) =
     Inr (if q = [] \<or> t = [] then 0.5
          else if sublist (lower q) (lower t) then 0.95
          else let W = filter (\<lambda>w. 3 < length w) (split (lower q)) in
               if W = [] then 0.5
               else 0.5 + real (length (filter (\<lambda>w. sublist w (lower t)) W)) / real (length W) * 0.4)"
  by (simp add: calculate_relevance_score_def py_bind_def Let_def py_in_iff_sublist matches_count)

lemma fraction_bounds:
  assumes "W \<noteq> []"
  shows "0 \<le> real (length (filter P W)) / real (length W)"
    and "real (length (filter P W)) / real (length W) \<le> 1"
proof -
  have "length (filter P W) \<le> length W" by (rule length_filter_le)
  moreover have "0 < length W" using assms by simp
  ultimately show "real (length (filter P W)) / real (length W) \<le> 1" by simp
  show "0 \<le> real (length (filter P W)) / real (length W)" by simp
qed

lemma score_range:
  "\<exists>s. calculate_relevance_score q (JStr t) = Inr s \<and> 1 / 2 \<le> s \<and> s \<le> 95 / 100"
proof -
  let ?W = "filter (\<lambda>w. 3 < length w) (split (lower q))"
  let ?f = "real (length (filter (\<lambda>w. sublist w (lower t)) ?W)) / real (length ?W)"
  show ?thesis
  proof (cases "?W = []")
    case True
    then show ?thesis by (simp add: score_on_strings Let_def)
  next
    case False
    from fraction_bounds [OF False] have "0 \<le> ?f" and "?f \<le> 1" by blast+
    then have "1 / 2 \<le> 1 / 2 + ?f * (4 / 10)" and "1 / 2 + ?f * (4 / 10) \<le> 95 / 100"
      by simp_all
    with False show ?thesis by (simp add: score_on_strings Let_def)
  qed
qed

text \<open>
  Claim C1. On a query string and a text string the scorer returns the value the
  specification describes: 0.5 if either is empty; otherwise 0.95 if the lowercased query
  occurs in the lowercased text; otherwise, with \<open>W\<close> the words of the lowercased query
  longer than three characters, 0.5 if \<open>W\<close> is empty and 0.5 + 0.4 times the share of the
  words of \<open>W\<close> that occur in the lowercased text if not. The cases are tested in that order.
\<close>

theorem scorer_refines_spec:
  "calculate_relevance_score q (JStr t) = Inr (relevance_spec q t)"
  by (simp add: score_on_strings relevance_spec_def Let_def)

theorem scorer_refines_spec_witness:
  "calculate_relevance_score ''bitcoin price news'' (JStr ''Price of gold'') = Inr (19 / 30)
   \<and> relevance_spec ''bitcoin price news'' ''Price of gold'' = 19 / 30"
proof -
  have a: "calculate_relevance_score ''bitcoin price news'' (JStr ''Price of gold'')
             = Inr (19 / 30)"
    by code_simp
  from a scorer_refines_spec [of "''bitcoin price news''" "''Price of gold''"]
  show ?thesis by simp
qed

text \<open>
  Claim C5, as stated: whenever the lowercased query occurs in the lowercased text the
  score is 0.95, with no condition that the query is not empty. The empty query occurs in
  every text, and the first test of the scorer returns 0.5 for it.
\<close>

theorem empty_query_substring_counterexample:
  "sublist (lower []) (lower ''abc'') \<and>
   calculate_relevance_score [] (JStr ''abc'') = Inr 0.5 \<and>
   calculate_relevance_score [] (JStr ''abc'') \<noteq> Inr 0.95"
  by (simp add: calculate_relevance_score_def lower_def)

text \<open>
  Claim C5, amended: for every query string that is not empty and every text string such
  that the lowercased query occurs in the lowercased text, the scorer returns exactly
  0.95; in particular the score of "bitcoin" against "Bitcoin rallies today" is 0.95.
\<close>

theorem substring_match_scores_095:
  "(q \<noteq> [] \<and> sublist (lower q) (lower t) \<longrightarrow> calculate_relevance_score q (JStr t) = Inr 0.95)
   \<and> calculate_relevance_score ''bitcoin'' (JStr ''Bitcoin rallies today'') = Inr 0.95"
proof
  show "q \<noteq> [] \<and> sublist (lower q) (lower t) \<longrightarrow> calculate_relevance_score q (JStr t) = Inr 0.95"
  proof
    assume a: "q \<noteq> [] \<and> sublist (lower q) (lower t)"
    have "t \<noteq> []"
    proof
      assume "t = []"
      with a have "sublist (lower q) []" by (simp add: lower_def)
      then have "lower q = []" by simp
      with a show False by (simp add: lower_Nil_iff)
    qed
    with a show "calculate_relevance_score q (JStr t) = Inr 0.95"
      by (simp add: score_on_strings)
  qed
  show "calculate_relevance_score ''bitcoin'' (JStr ''Bitcoin rallies today'') = Inr 0.95"
    by code_simp
qed

theorem substring_match_scores_095_witness:
  "calculate_relevance_score ''BTC'' (JStr ''buy btc now'') = Inr 0.95"
proof -
  have "py_in (lower ''BTC'') (lower ''buy btc now'')" by code_simp
  then have "sublist (lower ''BTC'') (lower ''buy btc now'')" by (simp add: py_in_iff_sublist)
  with substring_match_scores_095 [of "''BTC''" "''buy btc now''"] show ?thesis by simp
qed

text \<open>
  Claim C6. For every query string and every text string, the scorer returns a value, and
  the value lies in the closed interval from 0 to 1.
\<close>

theorem score_between_0_and_1:
  "\<exists>s. calculate_relevance_score q (JStr t) = Inr s \<and> 0 \<le> s \<and> s \<le> 1"
proof -
  from score_range [of q t] obtain s where
    "calculate_relevance_score q (JStr t) = Inr s" "1 / 2 \<le> s" "s \<le> 95 / 100" by blast
  then show ?thesis by auto
qed

theorem score_between_0_and_1_witness:
  "\<exists>s. calculate_relevance_score ''bitcoin price news'' (JStr ''Price of gold'') = Inr s
        \<and> 0 \<le> s \<and> s \<le> 1"
  using score_between_0_and_1 [of "''bitcoin price news''" "''Price of gold''"] by simp

text \<open>
  Claim C9. For every non-empty query string and every non-empty text string the score
  lies between 0.5 and 0.95; a text in which neither the query nor any of its words longer
  than three characters occurs scores exactly 0.5.
\<close>

theorem score_between_half_and_095:
  assumes "q \<noteq> []" and "t \<noteq> []"
  shows "\<exists>s. calculate_relevance_score q (JStr t) = Inr s \<and> 0.5 \<le> s \<and> s \<le> 0.95 \<and>
      (\<not> sublist (lower q) (lower t) \<and>
         filter (\<lambda>w. sublist w (lower t)) (filter (\<lambda>w. 3 < length w) (split (lower q))) = []
       \<longrightarrow> s = 0.5)"
proof -
  from score_range [of q t] obtain s where
    s: "calculate_relevance_score q (JStr t) = Inr s" "1 / 2 \<le> s" "s \<le> 95 / 100" by blast
  have "s = 0.5" if "\<not> sublist (lower q) (lower t)"
     "filter (\<lambda>w. sublist w (lower t)) (filter (\<lambda>w. 3 < length w) (split (lower q))) = []"
    using s(1) that by (simp add: score_on_strings Let_def split: if_splits)
  with s show ?thesis by auto
qed

theorem score_between_half_and_095_witness:
  "calculate_relevance_score ''ethereum merge'' (JStr ''Solana outage'') = Inr 0.5"
proof -
  have a: "''ethereum merge'' \<noteq> []" and b: "''Solana outage'' \<noteq> []" by simp_all
  have c: "\<not> py_in (lower ''ethereum merge'') (lower ''Solana outage'')" by code_simp
  have d: "filter (\<lambda>w. py_in w (lower ''Solana outage''))
             (filter (\<lambda>w. 3 < length w) (split (lower ''ethereum merge''))) = []"
    by code_simp
  from score_between_half_and_095 [OF a b] c d show ?thesis
    by (auto simp: py_in_iff_sublist)
qed

section \<open>The requested coin ids\<close>

lemma mentioned_coins_eq:
  "mentioned_coins ql entries ids = ids @ map snd (filter (\<lambda>kc. py_in (fst kc) ql) entries)"
  by (induction entries arbitrary: ids) auto

lemma coin_ids_eq:
  "coin_ids q = (let hits = filter (\<lambda>kc. sublist (fst kc) (lower q)) coin_map
                 in if hits = [] then [''bitcoin'', ''ethereum'', ''solana''] else map snd hits)"
  by (simp add: coin_ids_def mentioned_coins_eq Let_def py_in_iff_sublist)

text \<open>
  Claim C10. In the price fetcher, if the lowercased query contains none of the ten keywords
  of the table, the coin ids requested are bitcoin, ethereum and solana; otherwise they are
  the ids of the matching keywords in the order of the table, duplicates included: the
  query "bitcoin btc" requests bitcoin twice.
\<close>

theorem requested_coin_ids:
  "((\<forall>kc \<in> set coin_map. \<not> sublist (fst kc) (lower q)) \<longrightarrow>
       coin_ids q = [''bitcoin'', ''ethereum'', ''solana''])
   \<and> ((\<exists>kc \<in> set coin_map. sublist (fst kc) (lower q)) \<longrightarrow>
       coin_ids q = map snd (filter (\<lambda>kc. sublist (fst kc) (lower q)) coin_map))
   \<and> length coin_map = 10
   \<and> coin_ids ''bitcoin btc'' = [''bitcoin'', ''bitcoin'']"
proof (intro conjI impI)
  assume "\<forall>kc \<in> set coin_map. \<not> sublist (fst kc) (lower q)"
  then have "filter (\<lambda>kc. sublist (fst kc) (lower q)) coin_map = []"
    by (simp add: filter_empty_conv)
  then show "coin_ids q = [''bitcoin'', ''ethereum'', ''solana'']"
    by (simp add: coin_ids_eq)
next
  assume "\<exists>kc \<in> set coin_map. sublist (fst kc) (lower q)"
  then have "filter (\<lambda>kc. sublist (fst kc) (lower q)) coin_map \<noteq> []"
    by (simp add: filter_empty_conv)
  then show "coin_ids q = map snd (filter (\<lambda>kc. sublist (fst kc) (lower q)) coin_map)"
    by (simp add: coin_ids_eq Let_def)
next
  show "length coin_map = 10" by (simp add: coin_map_def)
  show "coin_ids ''bitcoin btc'' = [''bitcoin'', ''bitcoin'']" by code_simp
qed

theorem requested_coin_ids_witness:
  "coin_ids ''Price of Ethereum?'' = [''ethereum'', ''ethereum'']
   \<and> coin_ids ''dogecoin'' = [''bitcoin'', ''ethereum'', ''solana'']"
proof -
  have a: "\<exists>kc \<in> set coin_map. py_in (fst kc) (lower ''Price of Ethereum?'')" by code_simp
  have b: "map snd (filter (\<lambda>kc. py_in (fst kc) (lower ''Price of Ethereum?'')) coin_map)
             = [''ethereum'', ''ethereum'']"
    by code_simp
  have c: "\<forall>kc \<in> set coin_map. \<not> py_in (fst kc) (lower ''dogecoin'')" by code_simp
  from requested_coin_ids [of "''Price of Ethereum?''"] a b
    requested_coin_ids [of "''dogecoin''"] c
  show ?thesis by (simp add: py_in_iff_sublist)
qed

section \<open>Ranking\<close>

lemma sorted_py_sort_reverse: "sorted_wrt (\<lambda>a b. f b \<le> f a) (py_sort_reverse f xs)"
proof -
  have "sorted_wrt (\<lambda>a b. f a \<le> f b) (sort_key f (rev xs))"
    using sorted_sort_key [of f "rev xs"] by (simp add: sorted_wrt_map)
  then show ?thesis by (simp add: py_sort_reverse_def sorted_wrt_rev)
qed

lemma stable_py_sort_reverse:
  "filter (\<lambda>x. f x = k) (py_sort_reverse f xs) = filter (\<lambda>x. f x = k) xs"
  by (simp add: py_sort_reverse_def rev_filter [symmetric] sort_key_stable)

lemma mset_py_sort_reverse: "mset (py_sort_reverse f xs) = mset xs"
  by (simp add: py_sort_reverse_def)

lemma length_py_sort_reverse: "length (py_sort_reverse f xs) = length xs"
  by (simp add: py_sort_reverse_def)

text \<open>No fetcher raises, so the aggregator always reaches the ranking step.\<close>

lemma gathered_total:
  "\<exists>gs. gathered_results cfg q w = Inr gs \<and> fetch_crypto_news cfg q fp w = Inr (top_ten gs)"
  by (simp add: gathered_results_def fetch_crypto_news_def py_bind_def
        fetch_from_coingecko_def fetch_from_cryptopanic_def fetch_crypto_prices_def
        fetch_from_newsapi_def)

lemma projr_collapse: "\<not> isl x \<Longrightarrow> x = Inr (projr x)"
  by (cases x) simp_all

text \<open>
  Claim C2. The aggregator returns the ranking \<open>top_ten\<close> of the concatenated outputs of
  the fetchers, and for every list of results the ranking is sorted by score, highest
  first, with results of equal score in the order they have in the list: for each score,
  the results of that score in the output are an initial part of those in the input.
\<close>

theorem aggregator_sorted_stable:
  "sorted_wrt (\<lambda>a b. score b \<le> score a) (top_ten rs)
   \<and> (\<forall>s. prefix (filter (\<lambda>r. score r = s) (top_ten rs)) (filter (\<lambda>r. score r = s) rs))
   \<and> (\<exists>gs. gathered_results cfg q w = Inr gs \<and> fetch_crypto_news cfg q fp w = Inr (top_ten gs))"
proof (intro conjI allI)
  show "sorted_wrt (\<lambda>a b. score b \<le> score a) (top_ten rs)"
    unfolding top_ten_def using sorted_py_sort_reverse [of score rs] by (rule sorted_wrt_take)
  show "prefix (filter (\<lambda>r. score r = s) (top_ten rs)) (filter (\<lambda>r. score r = s) rs)" for s
  proof -
    have "prefix (take 10 (py_sort_reverse score rs)) (py_sort_reverse score rs)"
      by (rule take_is_prefix)
    then have "prefix (filter (\<lambda>r. score r = s) (take 10 (py_sort_reverse score rs)))
                 (filter (\<lambda>r. score r = s) (py_sort_reverse score rs))"
      by (rule filter_mono_prefix)
    then show ?thesis by (simp add: top_ten_def stable_py_sort_reverse)
  qed
  show "\<exists>gs. gathered_results cfg q w = Inr gs \<and> fetch_crypto_news cfg q fp w = Inr (top_ten gs)"
    by (rule gathered_total)
qed

theorem aggregator_sorted_stable_witness:
  "map title (top_ten [scored 0.5 ''a'', scored 0.9 ''b'', scored 0.5 ''c'', scored 0.95 ''d'',
                       scored 0.9 ''e''])
     = map (\<lambda>n. Raw (JStr n)) [''d'', ''b'', ''e'', ''a'', ''c'']
   \<and> sorted_wrt (\<lambda>a b. score b \<le> score a)
       (top_ten [scored 0.5 ''a'', scored 0.9 ''b'', scored 0.5 ''c'', scored 0.95 ''d'',
                 scored 0.9 ''e''])
   \<and> map_sum id (map score) (fetch_crypto_news sample_config ''bitcoin'' [] sample_world)
     = Inr [0.95, 0.95, 0.95, 0.95, 0.95, 0.9, 0.5, 0.5, 0.5, 0.5]"
proof -
  let ?rs = "[scored 0.5 ''a'', scored 0.9 ''b'', scored 0.5 ''c'', scored 0.95 ''d'',
              scored 0.9 ''e'']"
  have a: "map title (top_ten ?rs) = map (\<lambda>n. Raw (JStr n)) [''d'', ''b'', ''e'', ''a'', ''c'']"
    by code_simp
  have b: "map_sum id (map score) (fetch_crypto_news sample_config ''bitcoin'' [] sample_world)
     = Inr [0.95, 0.95, 0.95, 0.95, 0.95, 0.9, 0.5, 0.5, 0.5, 0.5]"
    by code_simp
  from aggregator_sorted_stable [of ?rs sample_config "''bitcoin''" sample_world "[]"] a b
  show ?thesis by blast
qed

text \<open>
  Claim C3. The aggregator returns at most ten results, whatever the sources return; when
  the concatenated outputs hold at least ten results it returns exactly ten; and what it
  returns are the highest-scored ones: the results left out all score at most as much as
  every result returned.
\<close>

theorem aggregator_top_ten:
  "length (top_ten rs) \<le> 10
   \<and> (10 \<le> length rs \<longrightarrow> length (top_ten rs) = 10)
   \<and> (\<exists>rest. mset (top_ten rs) + mset rest = mset rs
         \<and> (\<forall>a \<in> set (top_ten rs). \<forall>b \<in> set rest. score b \<le> score a))
   \<and> (\<exists>gs. gathered_results cfg q w = Inr gs \<and> fetch_crypto_news cfg q fp w = Inr (top_ten gs))"
proof (intro conjI impI)
  let ?ys = "py_sort_reverse score rs"
  show "length (top_ten rs) \<le> 10" by (simp add: top_ten_def)
  show "length (top_ten rs) = 10" if "10 \<le> length rs"
    using that by (simp add: top_ten_def length_py_sort_reverse)
  have "sorted_wrt (\<lambda>a b. score b \<le> score a) (take 10 ?ys @ drop 10 ?ys)"
    using sorted_py_sort_reverse [of score rs] by simp
  then have ord: "\<forall>a \<in> set (take 10 ?ys). \<forall>b \<in> set (drop 10 ?ys). score b \<le> score a"
    unfolding sorted_wrt_append by blast
  have "mset (take 10 ?ys) + mset (drop 10 ?ys) = mset rs"
    using mset_py_sort_reverse [of score rs] by (metis append_take_drop_id mset_append)
  with ord show "\<exists>rest. mset (top_ten rs) + mset rest = mset rs
         \<and> (\<forall>a \<in> set (top_ten rs). \<forall>b \<in> set rest. score b \<le> score a)"
    unfolding top_ten_def by blast
  show "\<exists>gs. gathered_results cfg q w = Inr gs \<and> fetch_crypto_news cfg q fp w = Inr (top_ten gs)"
    by (rule gathered_total)
qed

theorem aggregator_top_ten_witness:
  "map_sum id length (gathered_results sample_config ''bitcoin'' sample_world) = Inr 12
   \<and> map_sum id length (fetch_crypto_news sample_config ''bitcoin'' [] sample_world) = Inr 10"
proof -
  let ?g = "gathered_results sample_config ''bitcoin'' sample_world"
  have "\<not> isl ?g" by code_simp
  then have g: "?g = Inr (projr ?g)" by (rule projr_collapse)
  have n: "length (projr ?g) = 12" by code_simp
  from aggregator_top_ten [of "projr ?g" sample_config "''bitcoin''" sample_world "[]"]
  have "length (top_ten (projr ?g)) = 10"
    and "\<exists>gs. ?g = Inr gs
           \<and> fetch_crypto_news sample_config ''bitcoin'' [] sample_world = Inr (top_ten gs)"
    using n by simp_all
  then show ?thesis using g n by (metis map_sum.simps(2) sum.inject(2))
qed

section \<open>Properties of the fetchers\<close>

lemma py_bind_Inr_iff: "py_bind m f = Inr y \<longleftrightarrow> (\<exists>x. m = Inr x \<and> f x = Inr y)"
  by (cases m) (simp_all add: py_bind_def)

lemma request_Raises: "world u = Raises \<Longrightarrow> request world u f = ([], Some RequestException)"
  by (simp add: request_def)

lemma request_status:
  "world u = Response st b \<Longrightarrow> st \<noteq> 200 \<Longrightarrow> request world u f = ([], None)"
  by (simp add: request_def)

lemma request_undecodable:
  "world u = Response 200 None \<Longrightarrow> request world u f = ([], Some JSONDecodeError)"
  by (simp add: request_def)

lemma request_data: "world u = Response 200 (Some data) \<Longrightarrow> request world u f = f data"
  by (simp add: request_def)

lemma request_failed: "failed (world u) \<Longrightarrow> fst (request world u f) = []"
  by (cases "world u") (auto simp: request_def split: option.splits)

lemma append_each_fst: "fst (append_each f xs acc) = acc @ records_until_error f xs"
proof (induction xs arbitrary: acc)
  case Nil
  show ?case by (simp add: records_until_error_def)
next
  case (Cons x xs)
  show ?case
  proof (cases "f x")
    case (Inl e)
    then show ?thesis by (simp add: records_until_error_def)
  next
    case (Inr r)
    with Cons.IH [of "acc @ [r]"] show ?thesis by (simp add: records_until_error_def)
  qed
qed

lemma length_records_until_error: "length (records_until_error f xs) \<le> length xs"
proof -
  have "length (takeWhile (\<lambda>r. \<not> isl r) (map f xs)) \<le> length (map f xs)"
    by (rule length_takeWhile_le)
  then show ?thesis by (simp add: records_until_error_def)
qed

lemma items_prefix:
  "map_of kvs k = Some (JArr xs) \<Longrightarrow>
   py_bind (py_get (JObj kvs) k (JArr [])) (\<lambda>v. py_bind (py_slice v n) py_iter) = Inr (take n xs)"
  by (simp add: py_bind_def py_get_def py_slice_def py_iter_def)

lemma coingecko_failed: "failed (world trending_url) \<Longrightarrow> fetch_from_coingecko q world = Inr []"
  by (simp add: fetch_from_coingecko_def coingecko_try_def request_failed)

lemma coingecko_data:
  "world trending_url = Response 200 (Some data) \<Longrightarrow>
   fetch_from_coingecko q world =
     Inr (case trending_coins data of Inl e \<Rightarrow> []
          | Inr coins \<Rightarrow> records_until_error (coingecko_result q) coins)"
  by (simp add: fetch_from_coingecko_def coingecko_try_def request_data append_each_fst
        split: sum.splits)

lemma cryptopanic_failed:
  "failed (world (cryptopanic_url cfg q)) \<Longrightarrow> fetch_from_cryptopanic cfg q world = Inr []"
  by (simp add: fetch_from_cryptopanic_def cryptopanic_try_def request_failed)

lemma cryptopanic_data:
  "world (cryptopanic_url cfg q) = Response 200 (Some data) \<Longrightarrow>
   fetch_from_cryptopanic cfg q world =
     Inr (case cryptopanic_posts data of Inl e \<Rightarrow> []
          | Inr posts \<Rightarrow> records_until_error (cryptopanic_result q) posts)"
  by (simp add: fetch_from_cryptopanic_def cryptopanic_try_def request_data append_each_fst
        split: sum.splits)

lemma prices_failed: "failed (world (prices_url q)) \<Longrightarrow> fetch_crypto_prices q world = Inr []"
  by (simp add: fetch_crypto_prices_def prices_try_def request_failed)

lemma prices_data:
  "world (prices_url q) = Response 200 (Some data) \<Longrightarrow>
   fetch_crypto_prices q world =
     Inr (case py_items data of Inl e \<Rightarrow> []
          | Inr entries \<Rightarrow> records_until_error price_result entries)"
  by (simp add: fetch_crypto_prices_def prices_try_def request_data append_each_fst
        split: sum.splits)

lemma newsapi_failed:
  "failed (world (newsapi_url cfg)) \<Longrightarrow> fetch_from_newsapi cfg q world = Inr []"
  by (simp add: fetch_from_newsapi_def newsapi_try_def request_failed)

lemma newsapi_data:
  "world (newsapi_url cfg) = Response 200 (Some data) \<Longrightarrow>
   fetch_from_newsapi cfg q world =
     Inr (case newsapi_articles data of Inl e \<Rightarrow> []
          | Inr articles \<Rightarrow> records_until_error (newsapi_result q) articles)"
  by (simp add: fetch_from_newsapi_def newsapi_try_def request_data append_each_fst
        split: sum.splits)

lemma coingecko_result_score:
  assumes "coingecko_result q coin = Inr r"
  shows "\<exists>t. coin_name coin = Inr t \<and> calculate_relevance_score q t = Inr (score r)"
  using assms unfolding coingecko_result_def coin_name_def py_bind_Inr_iff
  by (elim exE conjE) auto

lemma cryptopanic_result_score:
  assumes "cryptopanic_result q p = Inr r"
  shows "\<exists>t. py_get p ''title'' (JStr []) = Inr t \<and> calculate_relevance_score q t = Inr (score r)"
  using assms unfolding cryptopanic_result_def py_bind_Inr_iff
  by (elim exE conjE) auto

lemma newsapi_result_score:
  assumes "newsapi_result q a = Inr r"
  shows "\<exists>t. py_get a ''title'' (JStr []) = Inr t \<and> calculate_relevance_score q t = Inr (score r)"
  using assms unfolding newsapi_result_def py_bind_Inr_iff
  by (elim exE conjE) auto

lemma price_result_score:
  assumes "price_result e = Inr r"
  shows "score r = 0.9"
  using assms unfolding price_result_def Let_def py_bind_Inr_iff
  by (elim exE conjE) auto

text \<open>
  Claim C4, as stated: every fetcher maps a prefix of three to five items and scores each
  record with the relevance function. The price fetcher does neither: it maps every entry
  of the response and gives each record the score 0.9. Asked with the empty query, for
  which the relevance function returns 0.5 against any text, a six-coin answer yields six
  records of score 0.9; and for the query "bitcoin" the record of the coin bitcoin scores
  0.9 where the relevance of "bitcoin" against "bitcoin" is 0.95.
\<close>

theorem price_fetcher_counterexample:
  "map_sum id (map score) (fetch_crypto_prices [] six_prices_world)
     = Inr [0.9, 0.9, 0.9, 0.9, 0.9, 0.9]
   \<and> calculate_relevance_score [] (JStr ''bitcoin'') = Inr 0.5
   \<and> calculate_relevance_score [] (JStr ''Bitcoin Price Update'') = Inr 0.5
   \<and> map_sum id (map score) (fetch_crypto_prices ''bitcoin'' sample_world) = Inr [0.9]
   \<and> calculate_relevance_score ''bitcoin'' (JStr ''bitcoin'') = Inr 0.95"
  by code_simp

text \<open>
  Claim C4, amended: on a 200 response whose body decodes to an object with the item list,
  the trending, CryptoPanic and NewsAPI fetchers return the records of the first 3, 5 and
  3 items of the list (up to the first item whose mapping raises), and every record they
  produce is scored by the relevance function on the query and the item's name (trending)
  or title (the two news sources). The price fetcher returns one record for every entry of
  the response object (up to the first entry whose mapping raises), each with score 0.9.
\<close>

theorem fetchers_map_prefix:
  "(world trending_url = Response 200 (Some (JObj kvs1)) \<and> map_of kvs1 ''coins'' = Some (JArr coins)
      \<longrightarrow> fetch_from_coingecko q world = Inr (records_until_error (coingecko_result q) (take 3 coins))
          \<and> length (records_until_error (coingecko_result q) (take 3 coins)) \<le> 3)
   \<and> (coingecko_result q coin = Inr r1
      \<longrightarrow> (\<exists>t. coin_name coin = Inr t \<and> calculate_relevance_score q t = Inr (score r1)))
   \<and> (world (cryptopanic_url cfg q) = Response 200 (Some (JObj kvs2))
        \<and> map_of kvs2 ''results'' = Some (JArr posts)
      \<longrightarrow> fetch_from_cryptopanic cfg q world
            = Inr (records_until_error (cryptopanic_result q) (take 5 posts))
          \<and> length (records_until_error (cryptopanic_result q) (take 5 posts)) \<le> 5)
   \<and> (cryptopanic_result q p = Inr r2
      \<longrightarrow> (\<exists>t. py_get p ''title'' (JStr []) = Inr t \<and> calculate_relevance_score q t = Inr (score r2)))
   \<and> (world (newsapi_url cfg) = Response 200 (Some (JObj kvs3))
        \<and> map_of kvs3 ''articles'' = Some (JArr articles)
      \<longrightarrow> fetch_from_newsapi cfg q world
            = Inr (records_until_error (newsapi_result q) (take 3 articles))
          \<and> length (records_until_error (newsapi_result q) (take 3 articles)) \<le> 3)
   \<and> (newsapi_result q a = Inr r3
      \<longrightarrow> (\<exists>t. py_get a ''title'' (JStr []) = Inr t \<and> calculate_relevance_score q t = Inr (score r3)))
   \<and> (world (prices_url q) = Response 200 (Some (JObj entries))
      \<longrightarrow> fetch_crypto_prices q world = Inr (records_until_error price_result entries))
   \<and> (price_result e = Inr r4 \<longrightarrow> score r4 = 0.9)"
proof (intro conjI impI)
  assume a: "world trending_url = Response 200 (Some (JObj kvs1)) \<and> map_of kvs1 ''coins'' = Some (JArr coins)"
  then have "trending_coins (JObj kvs1) = Inr (take 3 coins)"
    by (simp add: trending_coins_def items_prefix)
  with a show "fetch_from_coingecko q world = Inr (records_until_error (coingecko_result q) (take 3 coins))"
    by (simp add: coingecko_data)
  show "length (records_until_error (coingecko_result q) (take 3 coins)) \<le> 3"
    using length_records_until_error [of "coingecko_result q" "take 3 coins"] by simp
next
  assume a: "world (cryptopanic_url cfg q) = Response 200 (Some (JObj kvs2))
        \<and> map_of kvs2 ''results'' = Some (JArr posts)"
  then have "cryptopanic_posts (JObj kvs2) = Inr (take 5 posts)"
    by (simp add: cryptopanic_posts_def items_prefix)
  with a show "fetch_from_cryptopanic cfg q world
            = Inr (records_until_error (cryptopanic_result q) (take 5 posts))"
    by (simp add: cryptopanic_data)
  show "length (records_until_error (cryptopanic_result q) (take 5 posts)) \<le> 5"
    using length_records_until_error [of "cryptopanic_result q" "take 5 posts"] by simp
next
  assume a: "world (newsapi_url cfg) = Response 200 (Some (JObj kvs3))
        \<and> map_of kvs3 ''articles'' = Some (JArr articles)"
  then have "newsapi_articles (JObj kvs3) = Inr (take 3 articles)"
    by (simp add: newsapi_articles_def items_prefix)
  with a show "fetch_from_newsapi cfg q world
            = Inr (records_until_error (newsapi_result q) (take 3 articles))"
    by (simp add: newsapi_data)
  show "length (records_until_error (newsapi_result q) (take 3 articles)) \<le> 3"
    using length_records_until_error [of "newsapi_result q" "take 3 articles"] by simp
next
  assume "world (prices_url q) = Response 200 (Some (JObj entries))"
  then show "fetch_crypto_prices q world = Inr (records_until_error price_result entries)"
    by (simp add: prices_data py_items_def)
qed (blast dest: coingecko_result_score cryptopanic_result_score newsapi_result_score
       price_result_score)+

theorem fetchers_map_prefix_witness:
  "map_sum id (map score) (fetch_from_coingecko ''bitcoin'' sample_world) = Inr [0.95, 0.5, 0.95]
   \<and> map_sum id (map score) (fetch_from_cryptopanic sample_config ''bitcoin'' sample_world)
       = Inr [0.95, 0.5, 0.5, 0.95, 0.5]
   \<and> map_sum id (map score) (fetch_from_newsapi sample_config ''bitcoin'' sample_world)
       = Inr [0.5, 0.95, 0.5]
   \<and> map_sum id (map score) (fetch_crypto_prices ''bitcoin'' sample_world) = Inr [0.9]
   \<and> (\<exists>t. coin_name (trending_item ''Pepe'' (JStr ''pepe'')) = Inr t
          \<and> calculate_relevance_score ''bitcoin'' t
              = Inr (score (projr (coingecko_result ''bitcoin'' (trending_item ''Pepe'' (JStr ''pepe''))))))
   \<and> (\<exists>t. py_get (post ''Miners sell'') ''title'' (JStr []) = Inr t
          \<and> calculate_relevance_score ''bitcoin'' t
              = Inr (score (projr (cryptopanic_result ''bitcoin'' (post ''Miners sell'')))))
   \<and> (\<exists>t. py_get (article ''Bitcoin and gold'') ''title'' (JStr []) = Inr t
          \<and> calculate_relevance_score ''bitcoin'' t
              = Inr (score (projr (newsapi_result ''bitcoin'' (article ''Bitcoin and gold'')))))
   \<and> score (projr (price_result (price_entry ''bitcoin''))) = 0.9"
proof -
  let ?coins = "[trending_item ''Bitcoin'' (JStr ''btc''), trending_item ''Pepe'' (JStr ''pepe''),
                 trending_item ''Wrapped Bitcoin'' (JStr ''wbtc''),
                 trending_item ''Solana'' (JStr ''sol'')]"
  let ?posts = "[post ''Bitcoin hits a new high'', post ''Miners sell'',
                 post ''ETF inflows grow'', post ''Why bitcoin matters'',
                 post ''Market wrap'', post ''Bitcoin at the close'']"
  let ?articles = "[article ''Ethereum upgrade ships'', article ''Bitcoin and gold'',
                    article ''Regulators meet'', article ''Bitcoin again'']"
  let ?coin = "trending_item ''Pepe'' (JStr ''pepe'')"
  let ?p = "post ''Miners sell''"
  let ?a = "article ''Bitcoin and gold''"
  let ?e = "price_entry ''bitcoin''"
  have h1: "sample_world trending_url = Response 200 (Some (JObj [(''coins'', JArr ?coins)]))
            \<and> map_of [(''coins'', JArr ?coins)] ''coins'' = Some (JArr ?coins)"
    by code_simp
  have h2: "sample_world (cryptopanic_url sample_config ''bitcoin'')
              = Response 200 (Some (JObj [(''results'', JArr ?posts)]))
            \<and> map_of [(''results'', JArr ?posts)] ''results'' = Some (JArr ?posts)"
    by code_simp
  have h3: "sample_world (newsapi_url sample_config)
              = Response 200 (Some (JObj [(''articles'', JArr ?articles)]))
            \<and> map_of [(''articles'', JArr ?articles)] ''articles'' = Some (JArr ?articles)"
    by code_simp
  have h4: "sample_world (prices_url ''bitcoin'') = Response 200 (Some (JObj [?e]))"
    by code_simp
  have "\<not> isl (coingecko_result ''bitcoin'' ?coin)" by code_simp
  then have h5: "coingecko_result ''bitcoin'' ?coin = Inr (projr (coingecko_result ''bitcoin'' ?coin))"
    by (rule projr_collapse)
  have "\<not> isl (cryptopanic_result ''bitcoin'' ?p)" by code_simp
  then have h6: "cryptopanic_result ''bitcoin'' ?p = Inr (projr (cryptopanic_result ''bitcoin'' ?p))"
    by (rule projr_collapse)
  have "\<not> isl (newsapi_result ''bitcoin'' ?a)" by code_simp
  then have h7: "newsapi_result ''bitcoin'' ?a = Inr (projr (newsapi_result ''bitcoin'' ?a))"
    by (rule projr_collapse)
  have "\<not> isl (price_result ?e)" by code_simp
  then have h8: "price_result ?e = Inr (projr (price_result ?e))"
    by (rule projr_collapse)
  have e1: "map score (records_until_error (coingecko_result ''bitcoin'') (take 3 ?coins))
              = [0.95, 0.5, 0.95]"
    by code_simp
  have e2: "map score (records_until_error (cryptopanic_result ''bitcoin'') (take 5 ?posts))
              = [0.95, 0.5, 0.5, 0.95, 0.5]"
    by code_simp
  have e3: "map score (records_until_error (newsapi_result ''bitcoin'') (take 3 ?articles))
              = [0.5, 0.95, 0.5]"
    by code_simp
  have e4: "map score (records_until_error price_result [?e]) = [0.9]"
    by code_simp
  note t = fetchers_map_prefix [where world = sample_world and q = "''bitcoin''"
      and cfg = sample_config
      and ?kvs1.0 = "[(''coins'', JArr ?coins)]" and coins = ?coins
      and ?kvs2.0 = "[(''results'', JArr ?posts)]" and posts = ?posts
      and ?kvs3.0 = "[(''articles'', JArr ?articles)]" and articles = ?articles
      and entries = "[?e]" and coin = ?coin and p = ?p and a = ?a and e = ?e
      and ?r1.0 = "projr (coingecko_result ''bitcoin'' ?coin)"
      and ?r2.0 = "projr (cryptopanic_result ''bitcoin'' ?p)"
      and ?r3.0 = "projr (newsapi_result ''bitcoin'' ?a)"
      and ?r4.0 = "projr (price_result ?e)"]
  from t h1 have c1: "fetch_from_coingecko ''bitcoin'' sample_world
      = Inr (records_until_error (coingecko_result ''bitcoin'') (take 3 ?coins))" by blast
  from t h2 have c2: "fetch_from_cryptopanic sample_config ''bitcoin'' sample_world
      = Inr (records_until_error (cryptopanic_result ''bitcoin'') (take 5 ?posts))" by blast
  from t h3 have c3: "fetch_from_newsapi sample_config ''bitcoin'' sample_world
      = Inr (records_until_error (newsapi_result ''bitcoin'') (take 3 ?articles))" by blast
  from t h4 have c4: "fetch_crypto_prices ''bitcoin'' sample_world
      = Inr (records_until_error price_result [?e])" by blast
  from t h5 have c5: "\<exists>t. coin_name ?coin = Inr t \<and> calculate_relevance_score ''bitcoin'' t
      = Inr (score (projr (coingecko_result ''bitcoin'' ?coin)))" by blast
  from t h6 have c6: "\<exists>t. py_get ?p ''title'' (JStr []) = Inr t
      \<and> calculate_relevance_score ''bitcoin'' t
          = Inr (score (projr (cryptopanic_result ''bitcoin'' ?p)))" by blast
  from t h7 have c7: "\<exists>t. py_get ?a ''title'' (JStr []) = Inr t
      \<and> calculate_relevance_score ''bitcoin'' t
          = Inr (score (projr (newsapi_result ''bitcoin'' ?a)))" by blast
  from t h8 have c8: "score (projr (price_result ?e)) = 0.9" by blast
  show ?thesis
    unfolding c1 c2 c3 c4 using e1 e2 e3 e4 c5 c6 c7 c8 by simp
qed

text \<open>
  Claim C7, as stated: whenever any step raises, the fetcher returns an empty sequence.
  When the mapping of an item raises, the results appended before it are returned: with a
  trending response whose second coin has a null symbol, \<^verbatim>\<open>.upper()\<close> raises
  \<^verbatim>\<open>AttributeError\<close> on the second coin and the fetcher returns the record of the first.
  Likewise the price fetcher, when the second coin of the response has a null 24 hour
  change: the comparison with 0 raises \<^verbatim>\<open>TypeError\<close> and the record of the first coin is
  returned.
\<close>

theorem partial_results_counterexample:
  "snd (coingecko_try ''bitcoin'' null_symbol_world) = Some AttributeError
   \<and> map_sum id (map score) (fetch_from_coingecko ''bitcoin'' null_symbol_world) = Inr [0.95]
   \<and> fetch_from_coingecko ''bitcoin'' null_symbol_world \<noteq> Inr []
   \<and> snd (prices_try ''bitcoin ethereum'' null_change_world) = Some TypeError
   \<and> map_sum id (map score) (fetch_crypto_prices ''bitcoin ethereum'' null_change_world)
       = Inr [0.9]"
  by code_simp

text \<open>
  Claim C7, amended: for every query string, no fetcher propagates an exception: each
  returns a sequence. The sequence is empty whenever the outbound call raises, the status
  is not 200 or the body does not decode, and whenever the item list cannot be read from
  the decoded body. When the mapping of an item raises, the fetcher returns the records of
  the items before it.
\<close>

theorem fetchers_never_raise:
  "(\<exists>rs. fetch_from_coingecko q world = Inr rs)
   \<and> (failed (world trending_url) \<longrightarrow> fetch_from_coingecko q world = Inr [])
   \<and> (world trending_url = Response 200 (Some d1) \<longrightarrow>
        fetch_from_coingecko q world =
          Inr (case trending_coins d1 of Inl err \<Rightarrow> []
               | Inr coins \<Rightarrow> records_until_error (coingecko_result q) coins))
   \<and> (\<exists>rs. fetch_from_cryptopanic cfg q world = Inr rs)
   \<and> (failed (world (cryptopanic_url cfg q)) \<longrightarrow> fetch_from_cryptopanic cfg q world = Inr [])
   \<and> (world (cryptopanic_url cfg q) = Response 200 (Some d2) \<longrightarrow>
        fetch_from_cryptopanic cfg q world =
          Inr (case cryptopanic_posts d2 of Inl err \<Rightarrow> []
               | Inr posts \<Rightarrow> records_until_error (cryptopanic_result q) posts))
   \<and> (\<exists>rs. fetch_crypto_prices q world = Inr rs)
   \<and> (failed (world (prices_url q)) \<longrightarrow> fetch_crypto_prices q world = Inr [])
   \<and> (world (prices_url q) = Response 200 (Some d3) \<longrightarrow>
        fetch_crypto_prices q world =
          Inr (case py_items d3 of Inl err \<Rightarrow> []
               | Inr entries \<Rightarrow> records_until_error price_result entries))
   \<and> (\<exists>rs. fetch_from_newsapi cfg q world = Inr rs)
   \<and> (failed (world (newsapi_url cfg)) \<longrightarrow> fetch_from_newsapi cfg q world = Inr [])
   \<and> (world (newsapi_url cfg) = Response 200 (Some d4) \<longrightarrow>
        fetch_from_newsapi cfg q world =
          Inr (case newsapi_articles d4 of Inl err \<Rightarrow> []
               | Inr articles \<Rightarrow> records_until_error (newsapi_result q) articles))"
proof (intro conjI impI)
  show "\<exists>rs. fetch_from_coingecko q world = Inr rs" by (simp add: fetch_from_coingecko_def)
  show "\<exists>rs. fetch_from_cryptopanic cfg q world = Inr rs" by (simp add: fetch_from_cryptopanic_def)
  show "\<exists>rs. fetch_crypto_prices q world = Inr rs" by (simp add: fetch_crypto_prices_def)
  show "\<exists>rs. fetch_from_newsapi cfg q world = Inr rs" by (simp add: fetch_from_newsapi_def)
qed (simp_all add: coingecko_failed coingecko_data cryptopanic_failed cryptopanic_data
       prices_failed prices_data newsapi_failed newsapi_data)

theorem fetchers_never_raise_witness:
  "fetch_from_coingecko ''bitcoin'' dead_world = Inr []
   \<and> fetch_from_cryptopanic sample_config ''bitcoin'' dead_world = Inr []
   \<and> fetch_crypto_prices ''bitcoin'' dead_world = Inr []
   \<and> fetch_from_newsapi sample_config ''bitcoin'' dead_world = Inr []
   \<and> map_sum id (map score) (fetch_from_coingecko ''bitcoin'' null_symbol_world) = Inr [0.95]
   \<and> map_sum id length (fetch_from_cryptopanic sample_config ''bitcoin'' null_symbol_world) = Inr 5
   \<and> map_sum id length (fetch_crypto_prices ''bitcoin'' null_symbol_world) = Inr 1
   \<and> map_sum id length (fetch_from_newsapi sample_config ''bitcoin'' null_symbol_world) = Inr 3"
proof -
  have d: "failed (dead_world u)" for u by (simp add: dead_world_def)
  note dead = fetchers_never_raise [where world = dead_world and q = "''bitcoin''"
      and cfg = sample_config]
  from dead d have a1: "fetch_from_coingecko ''bitcoin'' dead_world = Inr []" by blast
  from dead d have a2: "fetch_from_cryptopanic sample_config ''bitcoin'' dead_world = Inr []"
    by blast
  from dead d have a3: "fetch_crypto_prices ''bitcoin'' dead_world = Inr []" by blast
  from dead d have a4: "fetch_from_newsapi sample_config ''bitcoin'' dead_world = Inr []"
    by blast
  have h1: "null_symbol_world trending_url = Response 200 (Some trending_payload_null_symbol)"
    by code_simp
  have h2: "null_symbol_world (cryptopanic_url sample_config ''bitcoin'')
              = Response 200 (Some posts_payload)"
    by code_simp
  have h3: "null_symbol_world (prices_url ''bitcoin'')
              = Response 200 (Some (JObj [price_entry ''bitcoin'']))"
    by code_simp
  have h4: "null_symbol_world (newsapi_url sample_config) = Response 200 (Some articles_payload)"
    by code_simp
  note live = fetchers_never_raise [where world = null_symbol_world and q = "''bitcoin''"
      and cfg = sample_config and ?d1.0 = trending_payload_null_symbol
      and ?d2.0 = posts_payload and ?d3.0 = "JObj [price_entry ''bitcoin'']"
      and ?d4.0 = articles_payload]
  from live h1 have b1: "fetch_from_coingecko ''bitcoin'' null_symbol_world =
      Inr (case trending_coins trending_payload_null_symbol of Inl err \<Rightarrow> []
           | Inr coins \<Rightarrow> records_until_error (coingecko_result ''bitcoin'') coins)" by blast
  from live h2 have b2: "fetch_from_cryptopanic sample_config ''bitcoin'' null_symbol_world =
      Inr (case cryptopanic_posts posts_payload of Inl err \<Rightarrow> []
           | Inr posts \<Rightarrow> records_until_error (cryptopanic_result ''bitcoin'') posts)" by blast
  from live h3 have b3: "fetch_crypto_prices ''bitcoin'' null_symbol_world =
      Inr (case py_items (JObj [price_entry ''bitcoin'']) of Inl err \<Rightarrow> []
           | Inr entries \<Rightarrow> records_until_error price_result entries)" by blast
  from live h4 have b4: "fetch_from_newsapi sample_config ''bitcoin'' null_symbol_world =
      Inr (case newsapi_articles articles_payload of Inl err \<Rightarrow> []
           | Inr articles \<Rightarrow> records_until_error (newsapi_result ''bitcoin'') articles)" by blast
  have e1: "map score (case trending_coins trending_payload_null_symbol of Inl err \<Rightarrow> []
           | Inr coins \<Rightarrow> records_until_error (coingecko_result ''bitcoin'') coins) = [0.95]"
    by code_simp
  have e2: "length (case cryptopanic_posts posts_payload of Inl err \<Rightarrow> []
           | Inr posts \<Rightarrow> records_until_error (cryptopanic_result ''bitcoin'') posts) = 5"
    by code_simp
  have e3: "length (case py_items (JObj [price_entry ''bitcoin'']) of Inl err \<Rightarrow> []
           | Inr entries \<Rightarrow> records_until_error price_result entries) = 1"
    by code_simp
  have e4: "length (case newsapi_articles articles_payload of Inl err \<Rightarrow> []
           | Inr articles \<Rightarrow> records_until_error (newsapi_result ''bitcoin'') articles) = 3"
    by code_simp
  show ?thesis
    unfolding a1 a2 a3 a4 b1 b2 b3 b4 using e1 e2 e3 e4 by simp
qed

text \<open>
  Claim C8. The aggregator calls the sources one after the other and none aborts the
  others: every fetcher returns, and the output is the ranking of the four outputs
  concatenated (a source without key contributes nothing). A source whose call failed
  contributes the empty sequence, so the output is exactly the ranking of the other
  sources' results; and when at most ten results are gathered, all of them are returned.
\<close>

theorem source_failure_isolated:
  "\<exists>cg cp pr na.
     fetch_from_coingecko q world = Inr cg
     \<and> (if CRYPTOPANIC_API_KEY cfg \<noteq> [] then fetch_from_cryptopanic cfg q world else Inr []) = Inr cp
     \<and> fetch_crypto_prices q world = Inr pr
     \<and> (if NEWSAPI_KEY cfg \<noteq> [] then fetch_from_newsapi cfg q world else Inr []) = Inr na
     \<and> fetch_crypto_news cfg q fp world = Inr (top_ten (cg @ cp @ pr @ na))
     \<and> (failed (world trending_url) \<longrightarrow>
          fetch_crypto_news cfg q fp world = Inr (top_ten (cp @ pr @ na)))
     \<and> (failed (world (cryptopanic_url cfg q)) \<longrightarrow>
          fetch_crypto_news cfg q fp world = Inr (top_ten (cg @ pr @ na)))
     \<and> (failed (world (prices_url q)) \<longrightarrow>
          fetch_crypto_news cfg q fp world = Inr (top_ten (cg @ cp @ na)))
     \<and> (failed (world (newsapi_url cfg)) \<longrightarrow>
          fetch_crypto_news cfg q fp world = Inr (top_ten (cg @ cp @ pr)))
     \<and> (length (cg @ cp @ pr @ na) \<le> 10 \<longrightarrow> mset (top_ten (cg @ cp @ pr @ na)) = mset (cg @ cp @ pr @ na))"
proof -
  obtain cg where cg: "fetch_from_coingecko q world = Inr cg"
    by (simp add: fetch_from_coingecko_def)
  obtain cp where cp:
    "(if CRYPTOPANIC_API_KEY cfg \<noteq> [] then fetch_from_cryptopanic cfg q world else Inr []) = Inr cp"
    by (cases "CRYPTOPANIC_API_KEY cfg = []") (simp_all add: fetch_from_cryptopanic_def)
  obtain pr where pr: "fetch_crypto_prices q world = Inr pr"
    by (simp add: fetch_crypto_prices_def)
  obtain na where na:
    "(if NEWSAPI_KEY cfg \<noteq> [] then fetch_from_newsapi cfg q world else Inr []) = Inr na"
    by (cases "NEWSAPI_KEY cfg = []") (simp_all add: fetch_from_newsapi_def)
  have out: "fetch_crypto_news cfg q fp world = Inr (top_ten (cg @ cp @ pr @ na))"
    using cg cp pr na by (simp add: fetch_crypto_news_def gathered_results_def py_bind_def)
  have f1: "cg = []" if "failed (world trending_url)"
    using that cg by (simp add: coingecko_failed)
  have f2: "cp = []" if "failed (world (cryptopanic_url cfg q))"
    using that cp by (simp add: cryptopanic_failed split: if_splits)
  have f3: "pr = []" if "failed (world (prices_url q))"
    using that pr by (simp add: prices_failed)
  have f4: "na = []" if "failed (world (newsapi_url cfg))"
    using that na by (simp add: newsapi_failed split: if_splits)
  have all: "mset (top_ten rs) = mset rs" if "length rs \<le> 10" for rs
    using that by (simp add: top_ten_def py_sort_reverse_def)
  from cg cp pr na out f1 f2 f3 f4 all [of "cg @ cp @ pr @ na"] show ?thesis
    by (intro exI [of _ cg] exI [of _ cp] exI [of _ pr] exI [of _ na]) auto
qed

theorem source_failure_isolated_witness:
  "fetch_crypto_news sample_config ''bitcoin'' [] trending_down_world
     = Inr (top_ten (projr (fetch_from_cryptopanic sample_config ''bitcoin'' trending_down_world)
                     @ projr (fetch_crypto_prices ''bitcoin'' trending_down_world)
                     @ projr (fetch_from_newsapi sample_config ''bitcoin'' trending_down_world)))
   \<and> map_sum id (map score) (fetch_crypto_news sample_config ''bitcoin'' [] trending_down_world)
       = Inr [0.95, 0.95, 0.95, 0.9, 0.5, 0.5, 0.5, 0.5, 0.5]
   \<and> fetch_crypto_news sample_config ''bitcoin'' [] dead_world = Inr []"
proof -
  have k: "CRYPTOPANIC_API_KEY sample_config \<noteq> []" "NEWSAPI_KEY sample_config \<noteq> []"
    by (simp_all add: sample_config_def)
  have f: "failed (trending_down_world trending_url)" by code_simp
  from source_failure_isolated [of "''bitcoin''" trending_down_world sample_config "[]"]
  obtain cg cp pr na where
    cp: "fetch_from_cryptopanic sample_config ''bitcoin'' trending_down_world = Inr cp"
    and pr: "fetch_crypto_prices ''bitcoin'' trending_down_world = Inr pr"
    and na: "fetch_from_newsapi sample_config ''bitcoin'' trending_down_world = Inr na"
    and out: "fetch_crypto_news sample_config ''bitcoin'' [] trending_down_world
                = Inr (top_ten (cp @ pr @ na))"
    using k f by auto
  have a: "fetch_crypto_news sample_config ''bitcoin'' [] trending_down_world
     = Inr (top_ten (projr (fetch_from_cryptopanic sample_config ''bitcoin'' trending_down_world)
                     @ projr (fetch_crypto_prices ''bitcoin'' trending_down_world)
                     @ projr (fetch_from_newsapi sample_config ''bitcoin'' trending_down_world)))"
    using cp pr na out by simp
  have b: "map_sum id (map score)
             (fetch_crypto_news sample_config ''bitcoin'' [] trending_down_world)
       = Inr [0.95, 0.95, 0.95, 0.9, 0.5, 0.5, 0.5, 0.5, 0.5]"
    by code_simp
  have d: "failed (dead_world u)" for u by (simp add: dead_world_def)
  from source_failure_isolated [of "''bitcoin''" dead_world sample_config "[]"]
  obtain cg' cp' pr' na' where
    "fetch_from_coingecko ''bitcoin'' dead_world = Inr cg'"
    "fetch_from_cryptopanic sample_config ''bitcoin'' dead_world = Inr cp'"
    "fetch_crypto_prices ''bitcoin'' dead_world = Inr pr'"
    "fetch_from_newsapi sample_config ''bitcoin'' dead_world = Inr na'"
    "fetch_crypto_news sample_config ''bitcoin'' [] dead_world = Inr (top_ten (cp' @ pr' @ na'))"
    "fetch_crypto_news sample_config ''bitcoin'' [] dead_world = Inr (top_ten (cg' @ pr' @ na'))"
    "fetch_crypto_news sample_config ''bitcoin'' [] dead_world = Inr (top_ten (cg' @ cp' @ na'))"
    "fetch_crypto_news sample_config ''bitcoin'' [] dead_world = Inr (top_ten (cg' @ cp' @ pr'))"
    using k d by auto
  have c: "fetch_crypto_news sample_config ''bitcoin'' [] dead_world = Inr []"
    by code_simp
  from a b c show ?thesis by simp
qed

end
